theory Spec2Isabelle
  imports Complex_Main
begin

section \<open>Values shared by the three transports\<close>

text \<open>
  The exceptions the transports can meet. The \<^verbatim>\<open>connect\<close>, \<^verbatim>\<open>disconnect\<close>,
  send and receive methods of the three classes wrap their bodies in
  \<^verbatim>\<open>try ... except Exception\<close>, so inside such a method an exception is a
  value \<open>Inl e\<close> and the method turns it into its sentinel (\<open>False\<close> or
  \<open>None\<close>). The last two constructors are not Python
  exceptions: \<open>Unmodelled\<close> marks an input that lies outside the values this
  development represents (a float literal, a code point above U+00FF), and
  \<open>OutOfFuel\<close> is the bound of the parser's recursion, which
  \<open>json_loads\<close> sets above every input's need.
\<close>

datatype exn =
    ValueError
  | TypeError
  | OSError
  | socket_timeout
  | SerialException
  | JSONDecodeError
  | UnicodeDecodeError
  | AttributeError
  | NameError string
  | Unmodelled
  | OutOfFuel

type_synonym bytes = string
type_synonym address = "string \<times> int"

subsection \<open>Messages and the \<^verbatim>\<open>json\<close> module\<close>

text \<open>
  A command or feedback message is a Python \<^verbatim>\<open>dict\<close> with string keys; its
  values are what \<^verbatim>\<open>json.dumps\<close> accepts: \<^verbatim>\<open>None\<close>, booleans, integers,
  strings, lists and dicts. A dict is an association list in insertion order.
  Python strings are lists of code points up to U+00FF (one \<open>char\<close> each);
  floats are not represented.

  \<open>json_dumps\<close> is \<^verbatim>\<open>json.dumps\<close> with its defaults, as both
  \<^verbatim>\<open>send_command\<close>s call it: \<^verbatim>\<open>ensure_ascii=True\<close> and the separators
  \<^verbatim>\<open>", "\<close> and \<^verbatim>\<open>": "\<close>.
\<close>

datatype json =
    JNull
  | JBool bool
  | JInt int
  | JStr string
  | JList "json list"
  | JDict "(string \<times> json) list"

text \<open>
  Strings: every character outside the printable ASCII range, the quote and the
  backslash are replaced, by a short escape where one exists and by
  \<^verbatim>\<open>\u00XX\<close> with lower-case hex digits otherwise.
\<close>

definition hexdigit :: "nat \<Rightarrow> char" where
  "hexdigit n = ''0123456789abcdef'' ! (n mod 16)"

definition ESCAPE_ASCII_replace :: "char \<Rightarrow> string" where
  "ESCAPE_ASCII_replace c =
     (if c = CHR 0x22 then [CHR 0x5C, CHR 0x22]
      else if c = CHR 0x5C then [CHR 0x5C, CHR 0x5C]
      else if c = CHR 0x0A then [CHR 0x5C, CHR ''n'']
      else if c = CHR 0x0D then [CHR 0x5C, CHR ''r'']
      else if c = CHR 0x09 then [CHR 0x5C, CHR ''t'']
      else if c = CHR 0x0C then [CHR 0x5C, CHR ''f'']
      else if c = CHR 0x08 then [CHR 0x5C, CHR ''b'']
      else if 0x20 \<le> (of_char c :: nat) \<and> (of_char c :: nat) \<le> 0x7E then [c]
      else [CHR 0x5C, CHR ''u'', CHR ''0'', CHR ''0'',
            hexdigit (of_char c div 16), hexdigit (of_char c mod 16)])"

definition encode_basestring_ascii :: "string \<Rightarrow> string" where
  "encode_basestring_ascii s = CHR 0x22 # concat (map ESCAPE_ASCII_replace s) @ [CHR 0x22]"

text \<open>
  Integers are written in decimal, with a minus sign when negative.
\<close>

function digits :: "nat \<Rightarrow> string" where
  "digits n =
     (if n < 10 then [char_of (48 + n)] else digits (n div 10) @ [char_of (48 + n mod 10)])"
  by pat_completeness auto
termination
  by (relation "measure id") auto

declare digits.simps [simp del]

definition int_repr :: "int \<Rightarrow> string" where
  "int_repr i = (if i < 0 then CHR ''-'' # digits (nat (- i)) else digits (nat i))"

text \<open>
  Lists and dicts are written with their items in order; the empty ones are
  \<^verbatim>\<open>[]\<close> and \<^verbatim>\<open>{}\<close>.
\<close>

fun json_dumps :: "json \<Rightarrow> string"
  and dumps_items :: "json list \<Rightarrow> string"
  and dumps_pairs :: "(string \<times> json) list \<Rightarrow> string" where
  "json_dumps JNull = ''null''"
| "json_dumps (JBool b) = (if b then ''true'' else ''false'')"
| "json_dumps (JInt i) = int_repr i"
| "json_dumps (JStr s) = encode_basestring_ascii s"
| "json_dumps (JList xs) = ''['' @ dumps_items xs @ '']''"
| "json_dumps (JDict kvs) = ''{'' @ dumps_pairs kvs @ ''}''"
| "dumps_items [] = []"
| "dumps_items [x] = json_dumps x"
| "dumps_items (x # y # ys) = json_dumps x @ '', '' @ dumps_items (y # ys)"
| "dumps_pairs [] = []"
| "dumps_pairs [(k, v)] = encode_basestring_ascii k @ '': '' @ json_dumps v"
| "dumps_pairs ((k, v) # p # ps) =
     encode_basestring_ascii k @ '': '' @ json_dumps v @ '', '' @ dumps_pairs (p # ps)"

text \<open>
  \<open>json_loads\<close> is \<^verbatim>\<open>json.loads\<close> on a \<^verbatim>\<open>str\<close>. Its pieces follow the
  decoder of the \<^verbatim>\<open>json\<close> module: the whitespace it skips, \<^verbatim>\<open>scanstring\<close>
  in strict mode (a raw control character is an error), the number pattern
  \<^verbatim>\<open>NUMBER_RE\<close> with its integer part, fraction and exponent, and
  \<^verbatim>\<open>scan_once\<close> with \<^verbatim>\<open>JSONArray\<close> and \<^verbatim>\<open>JSONObject\<close>.
\<close>

definition WHITESPACE :: "char \<Rightarrow> bool" where
  "WHITESPACE c \<longleftrightarrow> c = CHR '' '' \<or> c = CHR 0x09 \<or> c = CHR 0x0A \<or> c = CHR 0x0D"

definition skip_ws :: "string \<Rightarrow> string" where
  "skip_ws s = dropWhile WHITESPACE s"

definition isdigit :: "char \<Rightarrow> bool" where
  "isdigit c \<longleftrightarrow> 48 \<le> (of_char c :: nat) \<and> (of_char c :: nat) \<le> 57"

definition hexval :: "char \<Rightarrow> nat option" where
  "hexval c =
     (let n = (of_char c :: nat) in
      if 48 \<le> n \<and> n \<le> 57 then Some (n - 48)
      else if 97 \<le> n \<and> n \<le> 102 then Some (n - 87)
      else if 65 \<le> n \<and> n \<le> 70 then Some (n - 55)
      else None)"

definition BACKSLASH :: "char \<Rightarrow> char option" where
  "BACKSLASH c =
     (if c = CHR 0x22 then Some (CHR 0x22)
      else if c = CHR 0x5C then Some (CHR 0x5C)
      else if c = CHR ''/'' then Some (CHR ''/'')
      else if c = CHR ''b'' then Some (CHR 0x08)
      else if c = CHR ''f'' then Some (CHR 0x0C)
      else if c = CHR ''n'' then Some (CHR 0x0A)
      else if c = CHR ''r'' then Some (CHR 0x0D)
      else if c = CHR ''t'' then Some (CHR 0x09)
      else None)"

definition decode_uXXXX :: "string \<Rightarrow> exn + nat \<times> string" where
  "decode_uXXXX s =
     (case s of
        a # b # c # d # r \<Rightarrow>
          (case (hexval a, hexval b, hexval c, hexval d) of
             (Some x, Some y, Some z, Some w) \<Rightarrow> Inr (((x * 16 + y) * 16 + z) * 16 + w, r)
           | _ \<Rightarrow> Inl JSONDecodeError)
      | _ \<Rightarrow> Inl JSONDecodeError)"

fun scanstring :: "string \<Rightarrow> exn + string \<times> string" where
  "scanstring [] = Inl JSONDecodeError"
| "scanstring (c # cs) =
     (if c = CHR 0x22 then Inr ([], cs)
      else if c = CHR 0x5C then
        (case cs of
           [] \<Rightarrow> Inl JSONDecodeError
         | esc # cs' \<Rightarrow>
             if esc = CHR ''u'' then
               (case cs' of
                  a # b # c # d # r \<Rightarrow>
                    (case decode_uXXXX [a, b, c, d] of
                       Inl e \<Rightarrow> Inl e
                     | Inr (uni, _) \<Rightarrow>
                         if 256 \<le> uni then Inl Unmodelled
                         else (case scanstring r of
                                 Inl e \<Rightarrow> Inl e
                               | Inr (str, rest) \<Rightarrow> Inr (char_of uni # str, rest)))
                | _ \<Rightarrow> Inl JSONDecodeError)
             else
               (case BACKSLASH esc of
                  None \<Rightarrow> Inl JSONDecodeError
                | Some ch \<Rightarrow>
                    (case scanstring cs' of
                       Inl e \<Rightarrow> Inl e
                     | Inr (str, rest) \<Rightarrow> Inr (ch # str, rest))))
      else if (of_char c :: nat) < 0x20 then Inl JSONDecodeError
      else (case scanstring cs of
              Inl e \<Rightarrow> Inl e
            | Inr (str, rest) \<Rightarrow> Inr (c # str, rest)))"

definition nat_of_digits :: "string \<Rightarrow> nat" where
  "nat_of_digits ds = foldl (\<lambda>acc c. acc * 10 + (of_char c - 48)) 0 ds"

definition int_of_literal :: "string \<Rightarrow> int" where
  "int_of_literal s =
     (case s of
        [] \<Rightarrow> 0
      | c # cs \<Rightarrow> if c = CHR ''-'' then - int (nat_of_digits cs) else int (nat_of_digits s))"

definition match_integer :: "string \<Rightarrow> (string \<times> string) option" where
  "match_integer s =
     (let (sign, s1) = (case s of [] \<Rightarrow> ([], s)
                        | c # cs \<Rightarrow> if c = CHR ''-'' then ([c], cs) else ([], s))
      in case s1 of
           [] \<Rightarrow> None
         | d # ds \<Rightarrow>
             if d = CHR ''0'' then Some (sign @ [d], ds)
             else if isdigit d then Some (sign @ d # takeWhile isdigit ds, dropWhile isdigit ds)
             else None)"

definition match_frac :: "string \<Rightarrow> string \<times> string" where
  "match_frac s =
     (case s of
        p # d # ds \<Rightarrow>
          if p = CHR ''.'' \<and> isdigit d
          then (p # d # takeWhile isdigit ds, dropWhile isdigit ds) else ([], s)
      | _ \<Rightarrow> ([], s))"

definition match_exp :: "string \<Rightarrow> string \<times> string" where
  "match_exp s =
     (case s of
        [] \<Rightarrow> ([], s)
      | e # s1 \<Rightarrow>
          if e = CHR ''e'' \<or> e = CHR ''E'' then
            (let (sign, s2) = (case s1 of [] \<Rightarrow> ([], s1)
                               | c # cs \<Rightarrow> if c = CHR ''-'' \<or> c = CHR ''+'' then ([c], cs) else ([], s1))
             in case s2 of
                  [] \<Rightarrow> ([], s)
                | d # ds \<Rightarrow>
                    if isdigit d
                    then (e # sign @ d # takeWhile isdigit ds, dropWhile isdigit ds)
                    else ([], s))
          else ([], s))"

definition match_number :: "string \<Rightarrow> (string \<times> string \<times> string \<times> string) option" where
  "match_number s =
     (case match_integer s of
        None \<Rightarrow> None
      | Some (integer, r1) \<Rightarrow>
          (let (fracpart, r2) = match_frac r1; (exppart, r3) = match_exp r2
           in Some (integer, fracpart, exppart, r3)))"

text \<open>
  \<^verbatim>\<open>dict(pairs)\<close>: a key that comes again keeps its place and takes the
  later value.
\<close>

fun dict_setitem :: "('k \<times> 'v) list \<Rightarrow> 'k \<Rightarrow> 'v \<Rightarrow> ('k \<times> 'v) list" where
  "dict_setitem [] k v = [(k, v)]"
| "dict_setitem ((k', v') # d) k v =
     (if k' = k then (k', v) # d else (k', v') # dict_setitem d k v)"

definition dict_of_pairs :: "('k \<times> 'v) list \<Rightarrow> ('k \<times> 'v) list" where
  "dict_of_pairs pairs = foldl (\<lambda>d (k, v). dict_setitem d k v) [] pairs"

text \<open>
  The three parsers call each other, so they take a bound on the number of
  calls. \<open>JSONArray\<close> starts at the first item of a non-empty array,
  \<open>JSONObject\<close> just after the opening quote of the first key. A number with
  a fraction or an exponent, and \<^verbatim>\<open>NaN\<close> and the infinities, are floats.
\<close>

fun scan_once :: "nat \<Rightarrow> string \<Rightarrow> exn + json \<times> string"
  and JSONArray :: "nat \<Rightarrow> string \<Rightarrow> exn + json list \<times> string"
  and JSONObject :: "nat \<Rightarrow> string \<Rightarrow> exn + (string \<times> json) list \<times> string" where
  "scan_once 0 s = Inl OutOfFuel"
| "scan_once (Suc n) s =
     (case s of
        [] \<Rightarrow> Inl JSONDecodeError
      | c # cs \<Rightarrow>
          if c = CHR 0x22 then
            (case scanstring cs of
               Inl e \<Rightarrow> Inl e
             | Inr (str, r) \<Rightarrow> Inr (JStr str, r))
          else if c = CHR ''{'' then
            (case skip_ws cs of
               [] \<Rightarrow> Inl JSONDecodeError
             | d # ds \<Rightarrow>
                 if d = CHR ''}'' then Inr (JDict [], ds)
                 else if d = CHR 0x22 then
                   (case JSONObject n ds of
                      Inl e \<Rightarrow> Inl e
                    | Inr (pairs, r) \<Rightarrow> Inr (JDict (dict_of_pairs pairs), r))
                 else Inl JSONDecodeError)
          else if c = CHR ''['' then
            (case skip_ws cs of
               [] \<Rightarrow> Inl JSONDecodeError
             | d # ds \<Rightarrow>
                 if d = CHR '']'' then Inr (JList [], ds)
                 else
                   (case JSONArray n (d # ds) of
                      Inl e \<Rightarrow> Inl e
                    | Inr (vals, r) \<Rightarrow> Inr (JList vals, r)))
          else if take 4 s = ''null'' then Inr (JNull, drop 4 s)
          else if take 4 s = ''true'' then Inr (JBool True, drop 4 s)
          else if take 5 s = ''false'' then Inr (JBool False, drop 5 s)
          else
            (case match_number s of
               Some (integer, fracpart, exppart, r) \<Rightarrow>
                 if fracpart \<noteq> [] \<or> exppart \<noteq> [] then Inl Unmodelled
                 else Inr (JInt (int_of_literal integer), r)
             | None \<Rightarrow>
                 if take 3 s = ''NaN'' \<or> take 8 s = ''Infinity'' \<or> take 9 s = ''-Infinity''
                 then Inl Unmodelled
                 else Inl JSONDecodeError))"
| "JSONArray 0 s = Inl OutOfFuel"
| "JSONArray (Suc n) s =
     (case scan_once n s of
        Inl e \<Rightarrow> Inl e
      | Inr (v, r) \<Rightarrow>
          (case skip_ws r of
             [] \<Rightarrow> Inl JSONDecodeError
           | d # ds \<Rightarrow>
               if d = CHR '']'' then Inr ([v], ds)
               else if d = CHR '','' then
                 (case JSONArray n (skip_ws ds) of
                    Inl e \<Rightarrow> Inl e
                  | Inr (vs, r') \<Rightarrow> Inr (v # vs, r'))
               else Inl JSONDecodeError))"
| "JSONObject 0 s = Inl OutOfFuel"
| "JSONObject (Suc n) s =
     (case scanstring s of
        Inl e \<Rightarrow> Inl e
      | Inr (key, r) \<Rightarrow>
          (case skip_ws r of
             [] \<Rightarrow> Inl JSONDecodeError
           | d # ds \<Rightarrow>
               if d \<noteq> CHR '':'' then Inl JSONDecodeError
               else
                 (case scan_once n (skip_ws ds) of
                    Inl e \<Rightarrow> Inl e
                  | Inr (v, r1) \<Rightarrow>
                      (case skip_ws r1 of
                         [] \<Rightarrow> Inl JSONDecodeError
                       | d1 # ds1 \<Rightarrow>
                           if d1 = CHR ''}'' then Inr ([(key, v)], ds1)
                           else if d1 = CHR '','' then
                             (case skip_ws ds1 of
                                [] \<Rightarrow> Inl JSONDecodeError
                              | q # qs \<Rightarrow>
                                  if q = CHR 0x22 then
                                    (case JSONObject n qs of
                                       Inl e \<Rightarrow> Inl e
                                     | Inr (ps, r2) \<Rightarrow> Inr ((key, v) # ps, r2))
                                  else Inl JSONDecodeError)
                           else Inl JSONDecodeError))))"

text \<open>
  Whitespace around the document is skipped; anything else after it is an
  error.
\<close>

definition json_loads :: "string \<Rightarrow> exn + json" where
  "json_loads s =
     (let s1 = skip_ws s in
      case scan_once (Suc (length s1)) s1 of
        Inl e \<Rightarrow> Inl e
      | Inr (v, r) \<Rightarrow> if skip_ws r = [] then Inr v else Inl JSONDecodeError)"

subsection \<open>UTF-8 and the string helpers of the receive paths\<close>

text \<open>
  \<^verbatim>\<open>str.encode('utf-8')\<close> and \<^verbatim>\<open>bytes.decode('utf-8')\<close> on code points up
  to U+00FF: one byte below 0x80, two bytes (lead 0xC2 or 0xC3) above. A lead byte
  from 0xC4 on starts a code point that is not represented.
\<close>

definition encode_utf8 :: "string \<Rightarrow> bytes" where
  "encode_utf8 s =
     concat (map (\<lambda>c. let n = (of_char c :: nat) in
                        if n < 128 then [c]
                        else [char_of (192 + n div 64), char_of (128 + n mod 64)]) s)"

fun decode_utf8 :: "bytes \<Rightarrow> exn + string" where
  "decode_utf8 [] = Inr []"
| "decode_utf8 (b # bs) =
     (let n = (of_char b :: nat) in
      if n < 128 then
        (case decode_utf8 bs of Inl e \<Rightarrow> Inl e | Inr s \<Rightarrow> Inr (b # s))
      else if n = 194 \<or> n = 195 then
        (case bs of
           [] \<Rightarrow> Inl UnicodeDecodeError
         | c # cs \<Rightarrow>
             (let m = (of_char c :: nat) in
              if 128 \<le> m \<and> m < 192 then
                (case decode_utf8 cs of
                   Inl e \<Rightarrow> Inl e
                 | Inr s \<Rightarrow> Inr (char_of ((n - 192) * 64 + (m - 128)) # s))
              else Inl UnicodeDecodeError))
      else if n < 194 then Inl UnicodeDecodeError
      else Inl Unmodelled)"

text \<open>\<^verbatim>\<open>str.strip()\<close>: the code points up to U+00FF that Python counts as
  whitespace are removed from both ends.\<close>

definition isspace :: "char \<Rightarrow> bool" where
  "isspace c \<longleftrightarrow>
     (let n = (of_char c :: nat) in
      (9 \<le> n \<and> n \<le> 13) \<or> (28 \<le> n \<and> n \<le> 32) \<or> n = 133 \<or> n = 160)"

definition strip :: "string \<Rightarrow> string" where
  "strip s = rev (dropWhile isspace (rev (dropWhile isspace s)))"

text \<open>\<^verbatim>\<open>str.upper()\<close> on code points up to U+00FF. The upper-case forms of
  U+00B5 and U+00FF lie above U+00FF; both stay as they are here.\<close>

definition upper_char :: "char \<Rightarrow> string" where
  "upper_char c =
     (let n = (of_char c :: nat) in
      if 97 \<le> n \<and> n \<le> 122 then [char_of (n - 32)]
      else if n = 223 then ''SS''
      else if 224 \<le> n \<and> n \<le> 254 \<and> n \<noteq> 247 then [char_of (n - 32)]
      else [c])"

definition upper :: "string \<Rightarrow> string" where
  "upper s = concat (map upper_char s)"

text \<open>The body shared by both socket \<^verbatim>\<open>receive_data\<close>s after the read:
  an empty read is absent, otherwise the bytes are decoded and parsed, and any
  exception of either step is caught and gives absent.\<close>

definition parse_received :: "bytes \<Rightarrow> json option" where
  "parse_received data =
     (if data = [] then None
      else case decode_utf8 data of
             Inl e \<Rightarrow> None
           | Inr s \<Rightarrow> (case json_loads s of Inl e \<Rightarrow> None | Inr result \<Rightarrow> Some result))"

section \<open>The transport calls and their outcomes\<close>

text \<open>
  A socket object is either one made by \<^verbatim>\<open>socket.socket\<close> or the connection
  that \<^verbatim>\<open>accept\<close> returned. Every call an operation makes on a socket or on
  the serial handle is recorded, in order, as an \<open>io_event\<close>; a call that raises
  is recorded too.
\<close>

datatype sock_type = SOCK_STREAM | SOCK_DGRAM

datatype sock = Sock sock_type | Conn address

datatype io_event =
    CallSocket sock_type
  | CallConnect sock address
  | CallSetsockopt sock
  | CallBind sock address
  | CallListen sock int
  | CallAccept sock
  | CallClose sock
  | CallSettimeout sock real
  | CallSendall sock bytes
  | CallSendto sock bytes address
  | CallRecv sock int
  | CallRecvfrom sock int
  | CallSerial string int int string real real
  | CallResetInputBuffer
  | CallResetOutputBuffer
  | CallSerialClose
  | CallWrite bytes
  | CallFlush
  | SetTimeout real
  | CallReadline
  | CallRead int

text \<open>
  How the operating system answers during one operation: for each call, the
  exception it raises or the value it returns. \<open>recv_returns\<close> holds the bytes
  pending on the connection, \<open>recvfrom_returns\<close> the next datagram with its
  source.
\<close>

record sock_env =
  socket_raises :: "exn option"
  connect_raises :: "exn option"
  setsockopt_raises :: "exn option"
  bind_raises :: "exn option"
  listen_raises :: "exn option"
  accept_returns :: "exn + address"
  close_raises :: "sock \<Rightarrow> exn option"
  send_raises :: "exn option"
  recv_returns :: "exn + bytes"
  recvfrom_returns :: "exn + bytes \<times> address"

text \<open>\<^verbatim>\<open>settimeout\<close> rejects a negative value; \<^verbatim>\<open>recv\<close> and
  \<^verbatim>\<open>recvfrom\<close> reject a negative buffer size and return at most that many
  bytes.\<close>

definition sock_settimeout :: "real \<Rightarrow> exn option" where
  "sock_settimeout t = (if t < 0 then Some ValueError else None)"

definition sock_recv :: "sock_env \<Rightarrow> int \<Rightarrow> exn + bytes" where
  "sock_recv env bufsize =
     (if bufsize < 0 then Inl ValueError
      else case recv_returns env of
             Inl e \<Rightarrow> Inl e
           | Inr pending \<Rightarrow> Inr (take (nat bufsize) pending))"

definition sock_recvfrom :: "sock_env \<Rightarrow> int \<Rightarrow> exn + bytes \<times> address" where
  "sock_recvfrom env bufsize =
     (if bufsize < 0 then Inl ValueError
      else case recvfrom_returns env of
             Inl e \<Rightarrow> Inl e
           | Inr (datagram, src) \<Rightarrow> Inr (take (nat bufsize) datagram, src))"

text \<open>A sequence of calls made one after the other inside a \<^verbatim>\<open>try\<close>: the
  first that raises ends the sequence.\<close>

fun run_calls :: "(io_event \<times> exn option) list \<Rightarrow> io_event list \<times> exn option" where
  "run_calls [] = ([], None)"
| "run_calls ((ev, r) # cs) =
     (case r of
        Some e \<Rightarrow> ([ev], Some e)
      | None \<Rightarrow> (let (evs, res) = run_calls cs in (ev # evs, res)))"

section \<open>\<^verbatim>\<open>teleop_interface.py\<close>: the base class\<close>

record TeleopInterface =
  is_connected :: bool

definition TeleopInterface_init :: TeleopInterface where
  "TeleopInterface_init = \<lparr>is_connected = False\<rparr>"


section \<open>\<^verbatim>\<open>socket_teleop.py\<close>: \<^verbatim>\<open>SocketTeleopInterface\<close>\<close>

record SocketTeleopInterface = TeleopInterface +
  host :: string
  port :: int
  protocol :: string
  buffer_size :: int
  socket :: "sock option"

definition SocketTeleopInterface_init ::
  "string \<Rightarrow> int \<Rightarrow> string \<Rightarrow> int \<Rightarrow> (exn + SocketTeleopInterface) \<times> io_event list" where
  "SocketTeleopInterface_init h p proto bs =
     (let self = \<lparr>is_connected = False, host = h, port = p, protocol = upper proto,
                  buffer_size = bs, socket = None\<rparr>
      in if protocol self \<notin> set [''TCP'', ''UDP''] then (Inl ValueError, [])
         else (Inr self, []))"

definition SocketTeleopInterface_connect ::
  "sock_env \<Rightarrow> SocketTeleopInterface \<Rightarrow> bool \<times> SocketTeleopInterface \<times> io_event list" where
  "SocketTeleopInterface_connect env self =
     (if protocol self = ''TCP'' then
        (case socket_raises env of
           Some e \<Rightarrow> (False, self\<lparr>is_connected := False\<rparr>, [CallSocket SOCK_STREAM])
         | None \<Rightarrow>
             (let sk = Sock SOCK_STREAM;
                  self1 = self\<lparr>socket := Some sk\<rparr>;
                  evs = [CallSocket SOCK_STREAM, CallConnect sk (host self, port self)]
              in case connect_raises env of
                   Some e \<Rightarrow> (False, self1\<lparr>is_connected := False\<rparr>, evs)
                 | None \<Rightarrow> (True, self1\<lparr>is_connected := True\<rparr>, evs)))
      else
        (case socket_raises env of
           Some e \<Rightarrow> (False, self\<lparr>is_connected := False\<rparr>, [CallSocket SOCK_DGRAM])
         | None \<Rightarrow>
             (True, self\<lparr>socket := Some (Sock SOCK_DGRAM), is_connected := True\<rparr>,
              [CallSocket SOCK_DGRAM])))"

definition SocketTeleopInterface_disconnect ::
  "sock_env \<Rightarrow> SocketTeleopInterface \<Rightarrow> bool \<times> SocketTeleopInterface \<times> io_event list" where
  "SocketTeleopInterface_disconnect env self =
     (case socket self of
        None \<Rightarrow> (True, self\<lparr>is_connected := False\<rparr>, [])
      | Some sk \<Rightarrow>
          (case close_raises env sk of
             Some e \<Rightarrow> (False, self, [CallClose sk])
           | None \<Rightarrow> (True, self\<lparr>socket := None, is_connected := False\<rparr>, [CallClose sk])))"

definition SocketTeleopInterface_send_command ::
  "sock_env \<Rightarrow> (string \<times> json) list \<Rightarrow> SocketTeleopInterface
     \<Rightarrow> bool \<times> SocketTeleopInterface \<times> io_event list" where
  "SocketTeleopInterface_send_command env command self =
     (if \<not> is_connected self then (False, self, [])
      else case socket self of
        None \<Rightarrow> (False, self, [])
      | Some sk \<Rightarrow>
          (let data = encode_utf8 (json_dumps (JDict command));
               ev = (if protocol self = ''TCP'' then CallSendall sk data
                     else CallSendto sk data (host self, port self))
           in case send_raises env of
                Some e \<Rightarrow> (False, self, [ev])
              | None \<Rightarrow> (True, self, [ev])))"

definition SocketTeleopInterface_receive_data ::
  "sock_env \<Rightarrow> real \<Rightarrow> SocketTeleopInterface
     \<Rightarrow> json option \<times> SocketTeleopInterface \<times> io_event list" where
  "SocketTeleopInterface_receive_data env timeout self =
     (if \<not> is_connected self then (None, self, [])
      else case socket self of
        None \<Rightarrow> (None, self, [])
      | Some sk \<Rightarrow>
          (case sock_settimeout timeout of
             Some e \<Rightarrow> (None, self, [CallSettimeout sk timeout])
           | None \<Rightarrow>
               if protocol self = ''TCP'' then
                 (case sock_recv env (buffer_size self) of
                    Inl e \<Rightarrow>
                      (None, self, [CallSettimeout sk timeout, CallRecv sk (buffer_size self)])
                  | Inr data \<Rightarrow>
                      (parse_received data, self,
                       [CallSettimeout sk timeout, CallRecv sk (buffer_size self)]))
               else
                 (case sock_recvfrom env (buffer_size self) of
                    Inl e \<Rightarrow>
                      (None, self,
                       [CallSettimeout sk timeout, CallRecvfrom sk (buffer_size self)])
                  | Inr (data, src) \<Rightarrow>
                      (parse_received data, self,
                       [CallSettimeout sk timeout, CallRecvfrom sk (buffer_size self)]))))"

section \<open>\<^verbatim>\<open>socket_teleop.py\<close>: \<^verbatim>\<open>SocketTeleopServer\<close>\<close>

record SocketTeleopServer = TeleopInterface +
  host :: string
  port :: int
  protocol :: string
  buffer_size :: int
  server_socket :: "sock option"
  client_socket :: "sock option"
  client_address :: "address option"


definition SocketTeleopServer_connect ::
  "sock_env \<Rightarrow> SocketTeleopServer \<Rightarrow> bool \<times> SocketTeleopServer \<times> io_event list" where
  "SocketTeleopServer_connect env self =
     (if protocol self = ''TCP'' then
        (case socket_raises env of
           Some e \<Rightarrow> (False, self\<lparr>is_connected := False\<rparr>, [CallSocket SOCK_STREAM])
         | None \<Rightarrow>
             (let sk = Sock SOCK_STREAM;
                  self1 = self\<lparr>server_socket := Some sk\<rparr>;
                  (evs, r) = run_calls
                    [(CallSetsockopt sk, setsockopt_raises env),
                     (CallBind sk (host self, port self), bind_raises env),
                     (CallListen sk 1, listen_raises env)]
              in case r of
                   Some e \<Rightarrow> (False, self1\<lparr>is_connected := False\<rparr>, CallSocket SOCK_STREAM # evs)
                 | None \<Rightarrow>
                     (case accept_returns env of
                        Inl e \<Rightarrow>
                          (False, self1\<lparr>is_connected := False\<rparr>,
                           CallSocket SOCK_STREAM # evs @ [CallAccept sk])
                      | Inr addr \<Rightarrow>
                          (True,
                           self1\<lparr>client_socket := Some (Conn addr),
                                  client_address := Some addr, is_connected := True\<rparr>,
                           CallSocket SOCK_STREAM # evs @ [CallAccept sk]))))
      else
        (case socket_raises env of
           Some e \<Rightarrow> (False, self\<lparr>is_connected := False\<rparr>, [CallSocket SOCK_DGRAM])
         | None \<Rightarrow>
             (let sk = Sock SOCK_DGRAM;
                  self1 = self\<lparr>server_socket := Some sk\<rparr>;
                  evs = [CallSocket SOCK_DGRAM, CallBind sk (host self, port self)]
              in case bind_raises env of
                   Some e \<Rightarrow> (False, self1\<lparr>is_connected := False\<rparr>, evs)
                 | None \<Rightarrow> (True, self1\<lparr>is_connected := True\<rparr>, evs))))"

definition SocketTeleopServer_disconnect ::
  "sock_env \<Rightarrow> SocketTeleopServer \<Rightarrow> bool \<times> SocketTeleopServer \<times> io_event list" where
  "SocketTeleopServer_disconnect env self =
     (let (r1, self1, evs1) =
            (case client_socket self of
               None \<Rightarrow> (None, self, [])
             | Some c \<Rightarrow>
                 (case close_raises env c of
                    Some e \<Rightarrow> (Some e, self, [CallClose c])
                  | None \<Rightarrow> (None, self\<lparr>client_socket := None\<rparr>, [CallClose c])))
      in case r1 of
           Some e \<Rightarrow> (False, self1, evs1)
         | None \<Rightarrow>
             (case server_socket self1 of
                None \<Rightarrow> (True, self1\<lparr>is_connected := False\<rparr>, evs1)
              | Some s \<Rightarrow>
                  (case close_raises env s of
                     Some e \<Rightarrow> (False, self1, evs1 @ [CallClose s])
                   | None \<Rightarrow>
                       (True, self1\<lparr>server_socket := None, is_connected := False\<rparr>,
                        evs1 @ [CallClose s]))))"

definition SocketTeleopServer_send_command ::
  "sock_env \<Rightarrow> (string \<times> json) list \<Rightarrow> SocketTeleopServer
     \<Rightarrow> bool \<times> SocketTeleopServer \<times> io_event list" where
  "SocketTeleopServer_send_command env command self =
     (if \<not> is_connected self then (False, self, [])
      else
        (let data = encode_utf8 (json_dumps (JDict command)) in
         if protocol self = ''TCP'' then
           (case client_socket self of
              None \<Rightarrow> (False, self, [])
            | Some c \<Rightarrow>
                (case send_raises env of
                   Some e \<Rightarrow> (False, self, [CallSendall c data])
                 | None \<Rightarrow> (True, self, [CallSendall c data])))
         else
           (case client_address self of
              None \<Rightarrow> (False, self, [])
            | Some addr \<Rightarrow>
                (case server_socket self of
                   None \<Rightarrow> (False, self, [])
                 | Some s \<Rightarrow>
                     (case send_raises env of
                        Some e \<Rightarrow> (False, self, [CallSendto s data addr])
                      | None \<Rightarrow> (True, self, [CallSendto s data addr]))))))"

definition SocketTeleopServer_receive_data ::
  "sock_env \<Rightarrow> real \<Rightarrow> SocketTeleopServer
     \<Rightarrow> json option \<times> SocketTeleopServer \<times> io_event list" where
  "SocketTeleopServer_receive_data env timeout self =
     (if \<not> is_connected self then (None, self, [])
      else if protocol self = ''TCP'' then
        (case client_socket self of
           None \<Rightarrow> (None, self, [])
         | Some c \<Rightarrow>
             (case sock_settimeout timeout of
                Some e \<Rightarrow> (None, self, [CallSettimeout c timeout])
              | None \<Rightarrow>
                  (case sock_recv env (buffer_size self) of
                     Inl e \<Rightarrow>
                       (None, self, [CallSettimeout c timeout, CallRecv c (buffer_size self)])
                   | Inr data \<Rightarrow>
                       (parse_received data, self,
                        [CallSettimeout c timeout, CallRecv c (buffer_size self)]))))
      else
        (case server_socket self of
           None \<Rightarrow> (None, self, [])
         | Some s \<Rightarrow>
             (case sock_settimeout timeout of
                Some e \<Rightarrow> (None, self, [CallSettimeout s timeout])
              | None \<Rightarrow>
                  (case sock_recvfrom env (buffer_size self) of
                     Inl e \<Rightarrow>
                       (None, self,
                        [CallSettimeout s timeout, CallRecvfrom s (buffer_size self)])
                   | Inr (data, src) \<Rightarrow>
                       (parse_received data, self\<lparr>client_address := Some src\<rparr>,
                        [CallSettimeout s timeout, CallRecvfrom s (buffer_size self)])))))"

section \<open>\<^verbatim>\<open>serial_teleop.py\<close>: \<^verbatim>\<open>SerialTeleopInterface\<close>\<close>

text \<open>
  The handle \<^verbatim>\<open>serial.Serial\<close> returns: whether it is open, and its read
  timeout. \<open>serial_env\<close> gives the outcome of each call on the device during
  one operation; \<open>arriving\<close> is what a read meets: the exception it raises, or
  the bytes that arrive before its timeout expires.
\<close>

record Serial =
  is_open :: bool
  timeout :: real

record serial_env =
  open_raises :: "exn option"
  reset_input_buffer_raises :: "exn option"
  reset_output_buffer_raises :: "exn option"
  serial_close_raises :: "exn option"
  write_raises :: "exn option"
  flush_raises :: "exn option"
  arriving :: "exn + bytes"

text \<open>The constructor of the handle checks the line parameters, then opens the
  device.\<close>

definition serial_Serial ::
  "serial_env \<Rightarrow> string \<Rightarrow> int \<Rightarrow> int \<Rightarrow> string \<Rightarrow> real \<Rightarrow> real \<Rightarrow> exn + Serial" where
  "serial_Serial env prt baud bsize par stopb t =
     (if baud < 0 \<or> bsize \<notin> {5, 6, 7, 8} \<or> par \<notin> set [''N'', ''E'', ''O'', ''M'', ''S'']
         \<or> stopb \<notin> {1, 3 / 2, 2} \<or> t < 0
      then Inl ValueError
      else case open_raises env of
             Some e \<Rightarrow> Inl e
           | None \<Rightarrow> Inr \<lparr>is_open = True, timeout = t\<rparr>)"

text \<open>\<^verbatim>\<open>readline\<close> returns the arriving bytes up to and including the first
  newline, or all of them when no newline arrives in time; \<^verbatim>\<open>read(size)\<close>
  returns at most that many of them.\<close>

definition serial_readline :: "bytes \<Rightarrow> bytes" where
  "serial_readline rx =
     (case dropWhile (\<lambda>c. c \<noteq> CHR 0x0A) rx of
        [] \<Rightarrow> rx
      | c # cs \<Rightarrow> takeWhile (\<lambda>c. c \<noteq> CHR 0x0A) rx @ [CHR 0x0A])"

definition serial_read :: "int \<Rightarrow> bytes \<Rightarrow> bytes" where
  "serial_read n rx = take (nat n) rx"

record SerialTeleopInterface = TeleopInterface +
  port :: string
  baudrate :: int
  timeout :: real
  bytesize :: int
  parity :: string
  stopbits :: real
  serial_port :: "Serial option"


definition SerialTeleopInterface_connect ::
  "serial_env \<Rightarrow> SerialTeleopInterface \<Rightarrow> bool \<times> SerialTeleopInterface \<times> io_event list" where
  "SerialTeleopInterface_connect env self =
     (let ev = CallSerial (port self) (baudrate self) (bytesize self) (parity self)
                 (stopbits self) (timeout self)
      in case serial_Serial env (port self) (baudrate self) (bytesize self) (parity self)
                (stopbits self) (timeout self) of
           Inl e \<Rightarrow> (False, self\<lparr>is_connected := False\<rparr>, [ev])
         | Inr h \<Rightarrow>
             (let self1 = self\<lparr>serial_port := Some h\<rparr>;
                  (evs, r) = run_calls
                    [(CallResetInputBuffer, reset_input_buffer_raises env),
                     (CallResetOutputBuffer, reset_output_buffer_raises env)]
              in case r of
                   Some e \<Rightarrow> (False, self1\<lparr>is_connected := False\<rparr>, ev # evs)
                 | None \<Rightarrow> (True, self1\<lparr>is_connected := True\<rparr>, ev # evs)))"

definition SerialTeleopInterface_disconnect ::
  "serial_env \<Rightarrow> SerialTeleopInterface \<Rightarrow> bool \<times> SerialTeleopInterface \<times> io_event list" where
  "SerialTeleopInterface_disconnect env self =
     (case serial_port self of
        None \<Rightarrow> (True, self\<lparr>is_connected := False\<rparr>, [])
      | Some h \<Rightarrow>
          if \<not> is_open h then (True, self\<lparr>is_connected := False\<rparr>, [])
          else
            (case serial_close_raises env of
               Some e \<Rightarrow> (False, self, [CallSerialClose])
             | None \<Rightarrow>
                 (True, self\<lparr>serial_port := Some (h\<lparr>is_open := False\<rparr>), is_connected := False\<rparr>,
                  [CallSerialClose])))"

text \<open>The guard that opens every send and receive of the serial transport.\<close>

definition serial_ready :: "SerialTeleopInterface \<Rightarrow> bool" where
  "serial_ready self \<longleftrightarrow>
     is_connected self \<and> (case serial_port self of None \<Rightarrow> False | Some h \<Rightarrow> is_open h)"

definition SerialTeleopInterface_send_command ::
  "serial_env \<Rightarrow> (string \<times> json) list \<Rightarrow> SerialTeleopInterface
     \<Rightarrow> bool \<times> SerialTeleopInterface \<times> io_event list" where
  "SerialTeleopInterface_send_command env command self =
     (if \<not> serial_ready self then (False, self, [])
      else
        (let data = encode_utf8 (json_dumps (JDict command) @ [CHR 0x0A]);
             (evs, r) = run_calls
               [(CallWrite data, write_raises env), (CallFlush, flush_raises env)]
         in case r of
              Some e \<Rightarrow> (False, self, evs)
            | None \<Rightarrow> (True, self, evs)))"

definition SerialTeleopInterface_receive_data ::
  "serial_env \<Rightarrow> real \<Rightarrow> SerialTeleopInterface
     \<Rightarrow> json option \<times> SerialTeleopInterface \<times> io_event list" where
  "SerialTeleopInterface_receive_data env t self =
     (if \<not> serial_ready self then (None, self, [])
      else case serial_port self of
        None \<Rightarrow> (None, self, [])
      | Some h \<Rightarrow>
          (let original_timeout = Serial.timeout h in
           if t < 0 then (None, self, [SetTimeout t])
           else
             (let h1 = h\<lparr>Serial.timeout := t\<rparr> in
              case arriving env of
                Inl e \<Rightarrow> (None, self\<lparr>serial_port := Some h1\<rparr>, [SetTimeout t, CallReadline])
              | Inr rx \<Rightarrow>
                  (let line = serial_readline rx;
                       h2 = h1\<lparr>Serial.timeout := original_timeout\<rparr>;
                       evs = [SetTimeout t, CallReadline, SetTimeout original_timeout];
                       result =
                         (if line = [] then None
                          else case decode_utf8 line of
                                 Inl e \<Rightarrow> None
                               | Inr s \<Rightarrow>
                                   (case json_loads (strip s) of
                                      Inl e \<Rightarrow> None
                                    | Inr result \<Rightarrow> Some result))
                   in (result, self\<lparr>serial_port := Some h2\<rparr>, evs)))))"

definition SerialTeleopInterface_send_raw_bytes ::
  "serial_env \<Rightarrow> bytes \<Rightarrow> SerialTeleopInterface
     \<Rightarrow> bool \<times> SerialTeleopInterface \<times> io_event list" where
  "SerialTeleopInterface_send_raw_bytes env data self =
     (if \<not> serial_ready self then (False, self, [])
      else
        (let (evs, r) = run_calls
               [(CallWrite data, write_raises env), (CallFlush, flush_raises env)]
         in case r of
              Some e \<Rightarrow> (False, self, evs)
            | None \<Rightarrow> (True, self, evs)))"

definition SerialTeleopInterface_receive_raw_bytes ::
  "serial_env \<Rightarrow> int \<Rightarrow> real \<Rightarrow> SerialTeleopInterface
     \<Rightarrow> bytes option \<times> SerialTeleopInterface \<times> io_event list" where
  "SerialTeleopInterface_receive_raw_bytes env n t self =
     (if \<not> serial_ready self then (None, self, [])
      else case serial_port self of
        None \<Rightarrow> (None, self, [])
      | Some h \<Rightarrow>
          (let original_timeout = Serial.timeout h in
           if t < 0 then (None, self, [SetTimeout t])
           else
             (let h1 = h\<lparr>Serial.timeout := t\<rparr> in
              case arriving env of
                Inl e \<Rightarrow> (None, self\<lparr>serial_port := Some h1\<rparr>, [SetTimeout t, CallRead n])
              | Inr rx \<Rightarrow>
                  (let data = serial_read n rx;
                       h2 = h1\<lparr>Serial.timeout := original_timeout\<rparr>;
                       evs = [SetTimeout t, CallRead n, SetTimeout original_timeout]
                   in (if data = [] then None else Some data,
                       self\<lparr>serial_port := Some h2\<rparr>, evs)))))"

text \<open>\<^verbatim>\<open>clear_buffers\<close> has no \<^verbatim>\<open>try\<close>: an exception of a reset leaves
  the method.\<close>

definition SerialTeleopInterface_clear_buffers ::
  "serial_env \<Rightarrow> SerialTeleopInterface
     \<Rightarrow> (exn + unit) \<times> SerialTeleopInterface \<times> io_event list" where
  "SerialTeleopInterface_clear_buffers env self =
     (case serial_port self of
        None \<Rightarrow> (Inr (), self, [])
      | Some h \<Rightarrow>
          if \<not> is_open h then (Inr (), self, [])
          else
            (let (evs, r) = run_calls
                   [(CallResetInputBuffer, reset_input_buffer_raises env),
                    (CallResetOutputBuffer, reset_output_buffer_raises env)]
             in case r of
                  Some e \<Rightarrow> (Inl e, self, evs)
                | None \<Rightarrow> (Inr (), self, evs)))"

text \<open>
  \<^verbatim>\<open>list_available_ports\<close> is a static method. Its \<^verbatim>\<open>except\<close> branch calls
  \<^verbatim>\<open>logging.error\<close>, so it looks the name \<^verbatim>\<open>logging\<close> up in the globals of
  \<^verbatim>\<open>serial_teleop.py\<close>: the names its \<^verbatim>\<open>import\<close> statements and its class
  statement bind. A name that is neither there nor a builtin raises
  \<^verbatim>\<open>NameError\<close>; none of the names below is a builtin.
\<close>

definition serial_teleop_globals :: "string list" where
  "serial_teleop_globals =
     [''serial'', ''json'', ''time'', ''Optional'', ''Dict'', ''Any'', ''List'',
      ''TeleopInterface'', ''SerialTeleopInterface'']"

definition load_global :: "string \<Rightarrow> exn option" where
  "load_global name = (if name \<in> set serial_teleop_globals then None else Some (NameError name))"

definition list_available_ports :: "exn + string list \<Rightarrow> exn + string list" where
  "list_available_ports comports =
     (case comports of
        Inr ports \<Rightarrow> Inr ports
      | Inl e \<Rightarrow>
          (case load_global ''logging'' of
             Some e' \<Rightarrow> Inl e'
           | None \<Rightarrow> Inr []))"

section \<open>Calls as data, and the states and environments the examples use\<close>

text \<open>
  The public methods of each class as a datatype, with the state each call leaves
  behind. \<^verbatim>\<open>check_connection\<close> only reads the flag.
\<close>

datatype socket_call =
    Connect
  | Disconnect
  | SendCommand "(string \<times> json) list"
  | ReceiveData real
  | CheckConnection

fun client_after :: "sock_env \<Rightarrow> socket_call \<Rightarrow> SocketTeleopInterface \<Rightarrow> SocketTeleopInterface" where
  "client_after env Connect self = fst (snd (SocketTeleopInterface_connect env self))"
| "client_after env Disconnect self = fst (snd (SocketTeleopInterface_disconnect env self))"
| "client_after env (SendCommand command) self =
     fst (snd (SocketTeleopInterface_send_command env command self))"
| "client_after env (ReceiveData t) self =
     fst (snd (SocketTeleopInterface_receive_data env t self))"
| "client_after env CheckConnection self = self"

fun server_after :: "sock_env \<Rightarrow> socket_call \<Rightarrow> SocketTeleopServer \<Rightarrow> SocketTeleopServer" where
  "server_after env Connect self = fst (snd (SocketTeleopServer_connect env self))"
| "server_after env Disconnect self = fst (snd (SocketTeleopServer_disconnect env self))"
| "server_after env (SendCommand command) self =
     fst (snd (SocketTeleopServer_send_command env command self))"
| "server_after env (ReceiveData t) self =
     fst (snd (SocketTeleopServer_receive_data env t self))"
| "server_after env CheckConnection self = self"

datatype serial_call =
    SerialConnect
  | SerialDisconnect
  | SerialSendCommand "(string \<times> json) list"
  | SerialReceiveData real
  | SerialSendRawBytes bytes
  | SerialReceiveRawBytes int real
  | SerialClearBuffers
  | SerialCheckConnection

fun serial_after :: "serial_env \<Rightarrow> serial_call \<Rightarrow> SerialTeleopInterface \<Rightarrow> SerialTeleopInterface" where
  "serial_after env SerialConnect self = fst (snd (SerialTeleopInterface_connect env self))"
| "serial_after env SerialDisconnect self = fst (snd (SerialTeleopInterface_disconnect env self))"
| "serial_after env (SerialSendCommand command) self =
     fst (snd (SerialTeleopInterface_send_command env command self))"
| "serial_after env (SerialReceiveData t) self =
     fst (snd (SerialTeleopInterface_receive_data env t self))"
| "serial_after env (SerialSendRawBytes data) self =
     fst (snd (SerialTeleopInterface_send_raw_bytes env data self))"
| "serial_after env (SerialReceiveRawBytes n t) self =
     fst (snd (SerialTeleopInterface_receive_raw_bytes env n t self))"
| "serial_after env SerialClearBuffers self =
     fst (snd (SerialTeleopInterface_clear_buffers env self))"
| "serial_after env SerialCheckConnection self = self"

text \<open>
  An environment in which no call raises and nothing arrives, and the three
  transports as their constructors leave them, as \<^verbatim>\<open>connect\<close> leaves them
  in that environment, and with a UDP peer recorded.
\<close>

definition calm :: sock_env where
  "calm = \<lparr>socket_raises = None, connect_raises = None, setsockopt_raises = None,
            bind_raises = None, listen_raises = None,
            accept_returns = Inr (''127.0.0.1'', 50000), close_raises = (\<lambda>sk. None),
            send_raises = None, recv_returns = Inl socket_timeout,
            recvfrom_returns = Inl socket_timeout\<rparr>"

definition calm_serial :: serial_env where
  "calm_serial = \<lparr>open_raises = None, reset_input_buffer_raises = None,
            reset_output_buffer_raises = None, serial_close_raises = None,
            write_raises = None, flush_raises = None, arriving = Inr []\<rparr>"

definition fresh_client :: SocketTeleopInterface where
  "fresh_client = \<lparr>is_connected = False, SocketTeleopInterface.host = ''127.0.0.1'',
     SocketTeleopInterface.port = 8888, SocketTeleopInterface.protocol = ''TCP'',
     SocketTeleopInterface.buffer_size = 4096, socket = None\<rparr>"

definition fresh_server :: SocketTeleopServer where
  "fresh_server = \<lparr>is_connected = False, SocketTeleopServer.host = ''0.0.0.0'',
     SocketTeleopServer.port = 8888, SocketTeleopServer.protocol = ''UDP'',
     SocketTeleopServer.buffer_size = 4096, server_socket = None, client_socket = None,
     client_address = None\<rparr>"

definition fresh_serial :: SerialTeleopInterface where
  "fresh_serial = \<lparr>is_connected = False, port = ''/dev/ttyUSB0'', baudrate = 115200,
     timeout = 1, bytesize = 8, parity = ''N'', stopbits = 1, serial_port = None\<rparr>"

definition connected_client :: SocketTeleopInterface where
  "connected_client = fst (snd (SocketTeleopInterface_connect calm fresh_client))"

definition connected_server :: SocketTeleopServer where
  "connected_server = fst (snd (SocketTeleopServer_connect calm fresh_server))"

definition open_serial :: SerialTeleopInterface where
  "open_serial = fst (snd (SerialTeleopInterface_connect calm_serial fresh_serial))"

definition udp_server_with_peer :: SocketTeleopServer where
  "udp_server_with_peer = connected_server\<lparr>client_address := Some (''10.0.0.7'', 40000)\<rparr>"

text \<open>
  Environments in which one call misbehaves: closing raises, the serial read
  raises, three bytes arrive on the serial line, an empty JSON object arrives as a
  datagram.
\<close>

definition close_fails :: sock_env where
  "close_fails = calm\<lparr>close_raises := (\<lambda>sk. Some OSError)\<rparr>"

definition serial_close_fails :: serial_env where
  "serial_close_fails = calm_serial\<lparr>serial_close_raises := Some SerialException\<rparr>"

definition read_raises :: serial_env where
  "read_raises = calm_serial\<lparr>arriving := Inl SerialException\<rparr>"

definition three_bytes_arrive :: serial_env where
  "three_bytes_arrive = calm_serial\<lparr>arriving := Inr [CHR 0x01, CHR 0x02, CHR 0x03]\<rparr>"


section \<open>Valid messages, and what a send puts on the transport\<close>









definition small_buffer_client :: SocketTeleopInterface where
  "small_buffer_client = connected_client\<lparr>SocketTeleopInterface.buffer_size := 8\<rparr>"






section \<open>The example states\<close>





lemma connected_client_eq:
  "connected_client = fresh_client\<lparr>socket := Some (Sock SOCK_STREAM), is_connected := True\<rparr>"
  by (simp add: connected_client_def SocketTeleopInterface_connect_def calm_def fresh_client_def
      Let_def)

lemma connected_server_eq:
  "connected_server = fresh_server\<lparr>server_socket := Some (Sock SOCK_DGRAM), is_connected := True\<rparr>"
  by (simp add: connected_server_def SocketTeleopServer_connect_def calm_def fresh_server_def
      Let_def)

lemma open_serial_eq:
  "open_serial = fresh_serial\<lparr>serial_port := Some \<lparr>is_open = True, timeout = 1\<rparr>, is_connected := True\<rparr>"
  by (simp add: open_serial_def SerialTeleopInterface_connect_def calm_serial_def fresh_serial_def
      serial_Serial_def Let_def)

lemma udp_server_with_peer_eq:
  "udp_server_with_peer =
     fresh_server\<lparr>server_socket := Some (Sock SOCK_DGRAM), is_connected := True,
                    client_address := Some (''10.0.0.7'', 40000)\<rparr>"
  by (simp add: udp_server_with_peer_def connected_server_eq)

section \<open>\<open>json_loads\<close> reads back what \<open>json_dumps\<close> wrote\<close>

subsection \<open>Strings\<close>







subsection \<open>Integers\<close>



















subsection \<open>Values\<close>

























subsection \<open>The bytes of a printed value\<close>

















section \<open>A command sent is the command received\<close>












lemma small_buffer_client_built:
  "SocketTeleopInterface_init ''127.0.0.1'' 8888 ''TCP'' 8 = (Inr c, []) \<Longrightarrow>
     SocketTeleopInterface_connect calm c =
       (True, small_buffer_client,
        [CallSocket SOCK_STREAM, CallConnect (Sock SOCK_STREAM) (''127.0.0.1'', 8888)])"
  by (auto simp: SocketTeleopInterface_init_def SocketTeleopInterface_connect_def
      small_buffer_client_def connected_client_eq fresh_client_def calm_def upper_def
      upper_char_def Let_def split: if_splits)




section \<open>The connected flag guards every send and receive\<close>

lemma client_guard:
  "\<not> is_connected c \<Longrightarrow>
     SocketTeleopInterface_send_command env cmd c = (False, c, []) \<and>
     SocketTeleopInterface_receive_data env t c = (None, c, [])"
  by (simp add: SocketTeleopInterface_send_command_def SocketTeleopInterface_receive_data_def)

lemma server_guard:
  "\<not> is_connected s \<Longrightarrow>
     SocketTeleopServer_send_command env cmd s = (False, s, []) \<and>
     SocketTeleopServer_receive_data env t s = (None, s, [])"
  by (simp add: SocketTeleopServer_send_command_def SocketTeleopServer_receive_data_def)

lemma serial_guard:
  "\<not> is_connected p \<Longrightarrow>
     SerialTeleopInterface_send_command senv cmd p = (False, p, []) \<and>
     SerialTeleopInterface_receive_data senv t p = (None, p, []) \<and>
     SerialTeleopInterface_send_raw_bytes senv data p = (False, p, []) \<and>
     SerialTeleopInterface_receive_raw_bytes senv n t p = (None, p, [])"
  by (simp add: SerialTeleopInterface_send_command_def SerialTeleopInterface_receive_data_def
      SerialTeleopInterface_send_raw_bytes_def SerialTeleopInterface_receive_raw_bytes_def
      serial_ready_def)

lemma client_flag_only_connect:
  "is_connected (client_after env call c) \<Longrightarrow> \<not> is_connected c \<Longrightarrow>
     call = Connect \<and> fst (SocketTeleopInterface_connect env c)"
  by (cases call)
     (auto simp: SocketTeleopInterface_connect_def SocketTeleopInterface_disconnect_def
        SocketTeleopInterface_send_command_def SocketTeleopInterface_receive_data_def Let_def
        split: option.splits if_splits sum.splits prod.splits)

lemma server_flag_only_connect:
  "is_connected (server_after env call s) \<Longrightarrow> \<not> is_connected s \<Longrightarrow>
     call = Connect \<and> fst (SocketTeleopServer_connect env s)"
  by (cases call)
     (auto simp: SocketTeleopServer_connect_def SocketTeleopServer_disconnect_def
        SocketTeleopServer_send_command_def SocketTeleopServer_receive_data_def Let_def
        split: option.splits if_splits sum.splits prod.splits)

lemma serial_flag_only_connect:
  "is_connected (serial_after senv scall p) \<Longrightarrow> \<not> is_connected p \<Longrightarrow>
     scall = SerialConnect \<and> fst (SerialTeleopInterface_connect senv p)"
  by (cases scall)
     (auto simp: SerialTeleopInterface_connect_def SerialTeleopInterface_disconnect_def
        SerialTeleopInterface_send_command_def SerialTeleopInterface_receive_data_def
        SerialTeleopInterface_send_raw_bytes_def SerialTeleopInterface_receive_raw_bytes_def
        SerialTeleopInterface_clear_buffers_def serial_ready_def Let_def
        split: option.splits if_splits sum.splits prod.splits)

text \<open>
  Claim C2. In each of the three transports, when the connected flag is false
  \<^verbatim>\<open>send_command\<close> returns \<open>False\<close> and \<^verbatim>\<open>receive_data\<close> returns
  \<open>None\<close>, the state is unchanged and no call reaches the transport (the event
  list is empty). A call that finds the flag false and leaves it true is
  \<^verbatim>\<open>connect\<close>, and that \<^verbatim>\<open>connect\<close> returned \<open>True\<close>.
\<close>
theorem not_connected_no_transport_call:
  "(\<not> is_connected c \<longrightarrow>
      SocketTeleopInterface_send_command env cmd c = (False, c, []) \<and>
      SocketTeleopInterface_receive_data env t c = (None, c, [])) \<and>
   (\<not> is_connected s \<longrightarrow>
      SocketTeleopServer_send_command env cmd s = (False, s, []) \<and>
      SocketTeleopServer_receive_data env t s = (None, s, [])) \<and>
   (\<not> is_connected p \<longrightarrow>
      SerialTeleopInterface_send_command senv cmd p = (False, p, []) \<and>
      SerialTeleopInterface_receive_data senv t p = (None, p, [])) \<and>
   (is_connected (client_after env call c) \<and> \<not> is_connected c \<longrightarrow>
      call = Connect \<and> fst (SocketTeleopInterface_connect env c)) \<and>
   (is_connected (server_after env call s) \<and> \<not> is_connected s \<longrightarrow>
      call = Connect \<and> fst (SocketTeleopServer_connect env s)) \<and>
   (is_connected (serial_after senv scall p) \<and> \<not> is_connected p \<longrightarrow>
      scall = SerialConnect \<and> fst (SerialTeleopInterface_connect senv p))"
  using client_guard [of c env cmd t] server_guard [of s env cmd t]
    serial_guard [of p senv cmd t] client_flag_only_connect [of env call c]
    server_flag_only_connect [of env call s] serial_flag_only_connect [of senv scall p]
  by blast

text \<open>
  The statement at the three transports as constructed (flag false) and at the
  \<^verbatim>\<open>connect\<close> that succeeds from there.
\<close>
theorem not_connected_no_transport_call_witness:
  "\<not> is_connected fresh_client \<and>
   SocketTeleopInterface_send_command calm [] fresh_client = (False, fresh_client, []) \<and>
   SocketTeleopInterface_receive_data calm 1 fresh_client = (None, fresh_client, []) \<and>
   \<not> is_connected fresh_server \<and>
   SocketTeleopServer_send_command calm [] fresh_server = (False, fresh_server, []) \<and>
   SocketTeleopServer_receive_data calm 1 fresh_server = (None, fresh_server, []) \<and>
   \<not> is_connected fresh_serial \<and>
   SerialTeleopInterface_send_command calm_serial [] fresh_serial = (False, fresh_serial, []) \<and>
   SerialTeleopInterface_receive_data calm_serial 1 fresh_serial = (None, fresh_serial, []) \<and>
   is_connected (client_after calm Connect fresh_client) \<and>
   fst (SocketTeleopInterface_connect calm fresh_client) \<and>
   is_connected (server_after calm Connect fresh_server) \<and>
   fst (SocketTeleopServer_connect calm fresh_server) \<and>
   is_connected (serial_after calm_serial SerialConnect fresh_serial) \<and>
   fst (SerialTeleopInterface_connect calm_serial fresh_serial)"
proof -
  have a: "\<not> is_connected fresh_client" "\<not> is_connected fresh_server"
    "\<not> is_connected fresh_serial"
    by (simp_all add: fresh_client_def fresh_server_def fresh_serial_def)
  have b: "is_connected (client_after calm Connect fresh_client)"
    using connected_client_eq by (simp add: connected_client_def)
  have c: "is_connected (server_after calm Connect fresh_server)"
    using connected_server_eq by (simp add: connected_server_def)
  have d: "is_connected (serial_after calm_serial SerialConnect fresh_serial)"
    using open_serial_eq by (simp add: open_serial_def)
  show ?thesis
    using a b c d
      not_connected_no_transport_call [of fresh_client calm "[]" 1 fresh_server fresh_serial calm_serial Connect SerialConnect]
    by simp
qed

section \<open>\<^verbatim>\<open>disconnect\<close> and the connected flag\<close>











section \<open>\<^verbatim>\<open>disconnect\<close> twice\<close>

lemma client_disconnect_twice:
  "((\<forall>sk. close_raises env sk = None) \<longrightarrow> fst (SocketTeleopInterface_disconnect env c)) \<and>
   (fst (SocketTeleopInterface_disconnect env c) \<longrightarrow>
      SocketTeleopInterface_disconnect env' (fst (snd (SocketTeleopInterface_disconnect env c))) =
        (True, fst (snd (SocketTeleopInterface_disconnect env c)), []))"
  by (auto simp: SocketTeleopInterface_disconnect_def split: option.splits)

lemma server_disconnect_twice:
  "((\<forall>sk. close_raises env sk = None) \<longrightarrow> fst (SocketTeleopServer_disconnect env s)) \<and>
   (fst (SocketTeleopServer_disconnect env s) \<longrightarrow>
      SocketTeleopServer_disconnect env' (fst (snd (SocketTeleopServer_disconnect env s))) =
        (True, fst (snd (SocketTeleopServer_disconnect env s)), []))"
  by (auto simp: SocketTeleopServer_disconnect_def Let_def split: option.splits)

lemma serial_disconnect_twice:
  "(serial_close_raises senv = None \<longrightarrow> fst (SerialTeleopInterface_disconnect senv p)) \<and>
   (fst (SerialTeleopInterface_disconnect senv p) \<longrightarrow>
      SerialTeleopInterface_disconnect senv' (fst (snd (SerialTeleopInterface_disconnect senv p))) =
        (True, fst (snd (SerialTeleopInterface_disconnect senv p)), []))"
  by (auto simp: SerialTeleopInterface_disconnect_def split: option.splits)

text \<open>
  Claim C4 as stated fails: a \<^verbatim>\<open>disconnect\<close> whose \<^verbatim>\<open>close()\<close> raises
  returns \<open>False\<close>. Here for a connected UDP server and for an open serial
  transport.
\<close>
theorem disconnect_returns_false:
  "fst (SocketTeleopServer_disconnect close_fails connected_server) = False \<and>
   fst (SerialTeleopInterface_disconnect serial_close_fails open_serial) = False"
  by (simp add: connected_server_eq open_serial_eq SocketTeleopServer_disconnect_def
      SerialTeleopInterface_disconnect_def close_fails_def serial_close_fails_def
      fresh_server_def fresh_serial_def calm_serial_def)

text \<open>
  Claim C4, amended. In each transport and from every state, \<^verbatim>\<open>disconnect\<close>
  returns \<open>True\<close> when no \<^verbatim>\<open>close()\<close> raises; and after a \<^verbatim>\<open>disconnect\<close>
  that returned \<open>True\<close>, a second \<^verbatim>\<open>disconnect\<close> returns \<open>True\<close> in every
  environment, calls nothing and leaves the state as it is.
\<close>
theorem disconnect_twice:
  "((\<forall>sk. close_raises env sk = None) \<longrightarrow> fst (SocketTeleopInterface_disconnect env c)) \<and>
   (fst (SocketTeleopInterface_disconnect env c) \<longrightarrow>
      SocketTeleopInterface_disconnect env' (fst (snd (SocketTeleopInterface_disconnect env c))) =
        (True, fst (snd (SocketTeleopInterface_disconnect env c)), [])) \<and>
   ((\<forall>sk. close_raises env sk = None) \<longrightarrow> fst (SocketTeleopServer_disconnect env s)) \<and>
   (fst (SocketTeleopServer_disconnect env s) \<longrightarrow>
      SocketTeleopServer_disconnect env' (fst (snd (SocketTeleopServer_disconnect env s))) =
        (True, fst (snd (SocketTeleopServer_disconnect env s)), [])) \<and>
   (serial_close_raises senv = None \<longrightarrow> fst (SerialTeleopInterface_disconnect senv p)) \<and>
   (fst (SerialTeleopInterface_disconnect senv p) \<longrightarrow>
      SerialTeleopInterface_disconnect senv' (fst (snd (SerialTeleopInterface_disconnect senv p))) =
        (True, fst (snd (SerialTeleopInterface_disconnect senv p)), []))"
  using client_disconnect_twice [of env c env'] server_disconnect_twice [of env s env']
    serial_disconnect_twice [of senv p senv']
  by blast

text \<open>
  The statement at the three connected transports; the second call runs in an
  environment where closing would raise.
\<close>
theorem disconnect_twice_witness:
  "(\<forall>sk. close_raises calm sk = None) \<and> serial_close_raises calm_serial = None \<and>
   fst (SocketTeleopInterface_disconnect calm connected_client) \<and>
   SocketTeleopInterface_disconnect close_fails
       (fst (snd (SocketTeleopInterface_disconnect calm connected_client))) =
     (True, fst (snd (SocketTeleopInterface_disconnect calm connected_client)), []) \<and>
   fst (SocketTeleopServer_disconnect calm connected_server) \<and>
   SocketTeleopServer_disconnect close_fails
       (fst (snd (SocketTeleopServer_disconnect calm connected_server))) =
     (True, fst (snd (SocketTeleopServer_disconnect calm connected_server)), []) \<and>
   fst (SerialTeleopInterface_disconnect calm_serial open_serial) \<and>
   SerialTeleopInterface_disconnect serial_close_fails
       (fst (snd (SerialTeleopInterface_disconnect calm_serial open_serial))) =
     (True, fst (snd (SerialTeleopInterface_disconnect calm_serial open_serial)), [])"
proof -
  have a: "\<forall>sk. close_raises calm sk = None" "serial_close_raises calm_serial = None"
    by (simp_all add: calm_def calm_serial_def)
  show ?thesis
    using a disconnect_twice [of calm connected_client close_fails connected_server calm_serial open_serial
        serial_close_fails]
    by blast
qed

section \<open>The peer address of the UDP server\<close>



lemma udp_send_events:
  "SocketTeleopServer.protocol s = ''UDP'' \<Longrightarrow> client_address s = Some addr \<Longrightarrow>
     ev \<in> set (snd (snd (SocketTeleopServer_send_command env cmd s))) \<Longrightarrow>
     \<exists>sk. ev = CallSendto sk (encode_utf8 (json_dumps (JDict cmd))) addr"
  by (auto simp: SocketTeleopServer_send_command_def Let_def split: option.splits if_splits)


lemma udp_receive_overwrites:
  "SocketTeleopServer.protocol s = ''UDP'' \<Longrightarrow> is_connected s \<Longrightarrow> server_socket s = Some sk \<Longrightarrow>
     0 \<le> t \<Longrightarrow> 0 \<le> SocketTeleopServer.buffer_size s \<Longrightarrow>
     recvfrom_returns env = Inr (datagram, src) \<Longrightarrow>
     client_address (fst (snd (SocketTeleopServer_receive_data env t s))) = Some src"
  by (simp add: SocketTeleopServer_receive_data_def sock_recvfrom_def sock_settimeout_def)




section \<open>The read timeout of the serial handle\<close>

lemma serial_timeout_restored:
  "serial_ready p \<Longrightarrow> serial_port p = Some h \<Longrightarrow> arriving senv = Inr rx \<Longrightarrow>
     serial_port (fst (snd (SerialTeleopInterface_receive_data senv t p))) = Some h \<and>
     serial_port (fst (snd (SerialTeleopInterface_receive_raw_bytes senv n t p))) = Some h"
  by (simp add: SerialTeleopInterface_receive_data_def
      SerialTeleopInterface_receive_raw_bytes_def Let_def)

lemma serial_timeout_left_overridden:
  "serial_ready p \<Longrightarrow> serial_port p = Some h \<Longrightarrow> arriving senv = Inl e \<Longrightarrow> 0 \<le> t \<Longrightarrow>
     serial_port (fst (snd (SerialTeleopInterface_receive_data senv t p))) =
       Some (h\<lparr>Serial.timeout := t\<rparr>) \<and>
     serial_port (fst (snd (SerialTeleopInterface_receive_raw_bytes senv n t p))) =
       Some (h\<lparr>Serial.timeout := t\<rparr>)"
  by (simp add: SerialTeleopInterface_receive_data_def
      SerialTeleopInterface_receive_raw_bytes_def Let_def)

text \<open>
  Claim C6 fails on the code. The handle of the open transport has timeout 1;
  \<^verbatim>\<open>receive_data(timeout=5)\<close> and \<^verbatim>\<open>receive_raw_bytes(4, timeout=5)\<close> are
  called while the read raises \<^verbatim>\<open>SerialException\<close>. The assignment that
  restores the timeout follows the read inside the \<^verbatim>\<open>try\<close> and is skipped:
  both calls return \<open>None\<close> and leave the handle's timeout at 5.
\<close>
theorem serial_timeout_left_when_read_raises:
  "serial_port open_serial = Some \<lparr>is_open = True, timeout = 1\<rparr> \<and>
   SerialTeleopInterface_receive_data read_raises 5 open_serial =
     (None, open_serial\<lparr>serial_port := Some \<lparr>is_open = True, timeout = 5\<rparr>\<rparr>,
      [SetTimeout 5, CallReadline]) \<and>
   SerialTeleopInterface_receive_raw_bytes read_raises 4 5 open_serial =
     (None, open_serial\<lparr>serial_port := Some \<lparr>is_open = True, timeout = 5\<rparr>\<rparr>,
      [SetTimeout 5, CallRead 4])"
  by (simp add: open_serial_eq fresh_serial_def read_raises_def calm_serial_def
      SerialTeleopInterface_receive_data_def SerialTeleopInterface_receive_raw_bytes_def
      serial_ready_def Let_def)

section \<open>The length of a raw read\<close>

text \<open>
  Claim C7 as stated fails: \<^verbatim>\<open>read(size)\<close> returns what arrived before the
  timeout, and only an empty result becomes \<open>None\<close>. With three bytes arriving,
  \<^verbatim>\<open>receive_raw_bytes(5)\<close> returns those three.
\<close>
theorem receive_raw_bytes_short_read:
  "fst (SerialTeleopInterface_receive_raw_bytes three_bytes_arrive 5 1 open_serial) =
     Some [CHR 0x01, CHR 0x02, CHR 0x03] \<and>
   length [CHR 0x01, CHR 0x02, CHR 0x03] \<noteq> nat 5"
  by (simp add: open_serial_eq fresh_serial_def three_bytes_arrive_def calm_serial_def
      SerialTeleopInterface_receive_raw_bytes_def serial_ready_def serial_read_def Let_def)

text \<open>
  Claim C7, amended. A byte string returned by \<^verbatim>\<open>receive_raw_bytes(size,
  timeout)\<close> is the first \<open>size\<close> bytes of what arrived: it is not empty, and
  its length is the smaller of \<open>size\<close> and the number of bytes that arrived.
\<close>
theorem receive_raw_bytes_length:
  "fst (SerialTeleopInterface_receive_raw_bytes senv n t p) = Some data \<Longrightarrow>
     \<exists>rx. arriving senv = Inr rx \<and> data = take (nat n) rx \<and> data \<noteq> [] \<and>
       length data = min (nat n) (length rx)"
  by (auto simp: SerialTeleopInterface_receive_raw_bytes_def serial_read_def Let_def
      split: if_splits option.splits sum.splits)

text \<open>
  The statement at a read of two bytes when three arrive.
\<close>
theorem receive_raw_bytes_length_witness:
  "fst (SerialTeleopInterface_receive_raw_bytes three_bytes_arrive 2 1 open_serial) =
     Some [CHR 0x01, CHR 0x02] \<and>
   (\<exists>rx. arriving three_bytes_arrive = Inr rx \<and> [CHR 0x01, CHR 0x02] = take (nat 2) rx \<and>
      [CHR 0x01, CHR 0x02] \<noteq> [] \<and> length [CHR 0x01, CHR 0x02] = min (nat 2) (length rx))"
proof -
  have a: "fst (SerialTeleopInterface_receive_raw_bytes three_bytes_arrive 2 1 open_serial) =
     Some [CHR 0x01, CHR 0x02]"
    by (simp add: open_serial_eq fresh_serial_def three_bytes_arrive_def calm_serial_def
        SerialTeleopInterface_receive_raw_bytes_def serial_ready_def serial_read_def Let_def)
  show ?thesis
    using a receive_raw_bytes_length [OF a] by blast
qed

section \<open>\<^verbatim>\<open>list_available_ports\<close>\<close>

text \<open>
  Claim C8 fails on the code. When the enumeration raises, the \<^verbatim>\<open>except\<close>
  branch calls \<^verbatim>\<open>logging.error\<close>, and \<^verbatim>\<open>serial_teleop.py\<close> never imports
  \<^verbatim>\<open>logging\<close>: the method raises \<^verbatim>\<open>NameError\<close> to its caller instead of
  returning the empty list. When the enumeration succeeds its ports are
  returned.
\<close>
theorem list_available_ports_NameError:
  "list_available_ports (Inl e) = Inl (NameError ''logging'') \<and>
   list_available_ports (Inr ports) = Inr ports"
  by (simp add: list_available_ports_def load_global_def serial_teleop_globals_def)

section \<open>What the constructors check\<close>







section \<open>The peer address across a reconnect\<close>

lemma server_disconnect_keeps_peer:
  "client_address (fst (snd (SocketTeleopServer_disconnect env s))) = client_address s"
  by (auto simp: SocketTeleopServer_disconnect_def Let_def split: option.splits)

lemma server_disconnect_keeps_protocol:
  "SocketTeleopServer.protocol (fst (snd (SocketTeleopServer_disconnect env s))) =
     SocketTeleopServer.protocol s"
  by (auto simp: SocketTeleopServer_disconnect_def Let_def split: option.splits)

lemma udp_reconnect_send:
  assumes "SocketTeleopServer.protocol s1 = ''UDP''" and "client_address s1 = Some addr"
    and "socket_raises env2 = None" and "bind_raises env2 = None" and "send_raises env3 = None"
  shows "fst (SocketTeleopServer_connect env2 s1) \<and>
     SocketTeleopServer_send_command env3 cmd (fst (snd (SocketTeleopServer_connect env2 s1))) =
       (True, fst (snd (SocketTeleopServer_connect env2 s1)),
        [CallSendto (Sock SOCK_DGRAM) (encode_utf8 (json_dumps (JDict cmd))) addr])"
  using assms
  by (simp add: SocketTeleopServer_connect_def SocketTeleopServer_send_command_def Let_def)

text \<open>
  Claim C10. \<^verbatim>\<open>disconnect\<close> on the socket server leaves the recorded peer
  address as it is. So on a UDP server with a peer recorded, after a
  \<^verbatim>\<open>disconnect\<close> and a \<^verbatim>\<open>connect\<close> whose socket creation and bind do not
  raise, \<^verbatim>\<open>send_command\<close> with no \<^verbatim>\<open>receive_data\<close> in between sends to
  that peer and, the send not raising, returns \<open>True\<close>.
\<close>
theorem udp_peer_survives_reconnect:
  "client_address (fst (snd (SocketTeleopServer_disconnect denv s))) = client_address s \<and>
   (SocketTeleopServer.protocol s = ''UDP'' \<and> client_address s = Some addr \<and>
    socket_raises cenv = None \<and> bind_raises cenv = None \<and> send_raises wenv = None \<longrightarrow>
      fst (SocketTeleopServer_connect cenv (fst (snd (SocketTeleopServer_disconnect denv s)))) \<and>
      SocketTeleopServer_send_command wenv cmd
          (fst (snd (SocketTeleopServer_connect cenv
             (fst (snd (SocketTeleopServer_disconnect denv s)))))) =
        (True,
         fst (snd (SocketTeleopServer_connect cenv
           (fst (snd (SocketTeleopServer_disconnect denv s))))),
         [CallSendto (Sock SOCK_DGRAM) (encode_utf8 (json_dumps (JDict cmd))) addr]))"
  using server_disconnect_keeps_peer [of denv s] server_disconnect_keeps_protocol [of denv s]
    udp_reconnect_send [of "fst (snd (SocketTeleopServer_disconnect denv s))" addr cenv wenv cmd]
  by simp

text \<open>
  The statement at the UDP server with a peer recorded.
\<close>
theorem udp_peer_survives_reconnect_witness:
  "SocketTeleopServer.protocol udp_server_with_peer = ''UDP'' \<and>
   client_address udp_server_with_peer = Some (''10.0.0.7'', 40000) \<and>
   socket_raises calm = None \<and> bind_raises calm = None \<and> send_raises calm = None \<and>
   fst (SocketTeleopServer_connect calm
     (fst (snd (SocketTeleopServer_disconnect calm udp_server_with_peer)))) \<and>
   snd (snd (SocketTeleopServer_send_command calm []
     (fst (snd (SocketTeleopServer_connect calm
        (fst (snd (SocketTeleopServer_disconnect calm udp_server_with_peer)))))))) =
     [CallSendto (Sock SOCK_DGRAM) (encode_utf8 (json_dumps (JDict []))) (''10.0.0.7'', 40000)]"
proof -
  have a: "SocketTeleopServer.protocol udp_server_with_peer = ''UDP''"
    "client_address udp_server_with_peer = Some (''10.0.0.7'', 40000)"
    by (simp_all add: udp_server_with_peer_eq fresh_server_def)
  have b: "socket_raises calm = None" "bind_raises calm = None" "send_raises calm = None"
    by (simp_all add: calm_def)
  show ?thesis
    using a b
      udp_peer_survives_reconnect [where s = udp_server_with_peer and addr = "(''10.0.0.7'', 40000)" and denv = calm
        and cenv = calm and wenv = calm and cmd = "[]"]
    by simp
qed

end
